theory Spec2Isabelle
  imports Main
begin

section \<open>The temporary-link mailer of nealblim.com (app/config/mail.js)\<close>

text \<open>
  The module exports \<open>sendActivationEmail\<close> and \<open>sendResetEmail\<close>; both go through the
  private helper \<open>composeTemporaryLinkEmail\<close>, which renders a template, creates a row of
  the \<open>temporary_url\<close> table and hands the stored message to \<open>sendEmail\<close>.

  The code is callback glue around four collaborators (the Express renderer, the
  Sequelize models \<open>user\<close> and \<open>temporary_url\<close>, the Nodemailer transport) and the clock.
  The embedding passes them in as an environment and returns the list of observable
  events in the order in which the code causes them.
\<close>

subsection \<open>JavaScript values\<close>

text \<open>
  The values the module tests for truthiness, compares with \<open>null\<close> or concatenates to
  strings. \<open>JNum\<close> holds the integer-valued numbers (every integer below \<open>2 ^ 53\<close> in
  magnitude is exact as a double; \<open>NaN\<close> and fractions are left out). \<open>JObj s\<close> is
  an object (an \<open>Error\<close>, a \<open>Date\<close>, a \<open>Buffer\<close>), known by the string \<open>s\<close> that its
  conversion to a string gives.
\<close>

datatype jsval = JUndefined | JNull | JBool bool | JNum int | JStr string | JObj string

text \<open>What \<open>if (v)\<close> takes: \<open>undefined\<close>, \<open>null\<close>, \<open>false\<close>, \<open>0\<close> and \<open>''\<close> are falsy.\<close>

fun truthy :: "jsval \<Rightarrow> bool" where
  "truthy JUndefined = False"
| "truthy JNull = False"
| "truthy (JBool b) = b"
| "truthy (JNum n) = (n \<noteq> 0)"
| "truthy (JStr s) = (s \<noteq> [])"
| "truthy (JObj s) = True"

text \<open>\<open>v == null\<close> holds of \<open>null\<close> and of \<open>undefined\<close> (a field that was not supplied).\<close>

fun eq_null :: "jsval \<Rightarrow> bool" where
  "eq_null JUndefined = True"
| "eq_null JNull = True"
| "eq_null v = False"

fun digit :: "nat \<Rightarrow> char" where
  "digit n = ''0123456789'' ! (n mod 10)"

function decimal :: "nat \<Rightarrow> string" where
  "decimal n = (if n < 10 then [digit n] else decimal (n div 10) @ [digit n])"
  by pat_completeness auto
termination
  by (relation "measure (\<lambda>n. n)") auto

declare decimal.simps [simp del]

text \<open>The string a value becomes under \<open>v.toString()\<close> and under \<open>'...' + v\<close>.\<close>

fun toString :: "jsval \<Rightarrow> string" where
  "toString JUndefined = ''undefined''"
| "toString JNull = ''null''"
| "toString (JBool b) = (if b then ''true'' else ''false'')"
| "toString (JNum n) = (if n < 0 then CHR ''-'' # decimal (nat (- n)) else decimal (nat n))"
| "toString (JStr s) = s"
| "toString (JObj s) = s"

subsection \<open>Data\<close>

text \<open>The \<open>info\<close> argument of the two exported functions.\<close>

record info =
  recipientAddress :: jsval
  userName :: jsval
  info_url :: jsval
  info_id :: jsval

text \<open>The \<open>renderInfo\<close> and \<open>emailInfo\<close> arguments of \<open>composeTemporaryLinkEmail\<close>. A field
  of \<open>emailInfo\<close> that the caller leaves out reads as \<open>undefined\<close>.\<close>

record renderInfo =
  template :: string
  timespan :: int
  layout :: bool
  page_title :: string
  renderInfo_url :: jsval
  renderInfo_id :: jsval

record emailInfo =
  emailInfo_from :: jsval
  emailInfo_to :: jsval
  emailInfo_cc :: jsval
  emailInfo_bcc :: jsval
  emailInfo_subject :: jsval
  emailInfo_text :: jsval

text \<open>The \<open>email_info\<close> column and the row handed to \<open>TemporaryURL.create\<close>.\<close>

record email_info =
  email_from :: jsval
  email_to :: jsval
  email_cc :: jsval
  email_bcc :: jsval
  email_subject :: jsval
  email_html :: string
  email_text :: jsval

record temporary_url =
  row_id :: jsval
  expiration_time :: int
  row_url :: jsval
  email_info :: email_info

text \<open>The columns of a \<open>user\<close> row that \<open>sendResetEmail\<close> reads.\<close>

record user =
  user_id :: jsval
  login_key :: jsval
  user_active :: jsval
  last_login :: jsval

subsection \<open>Collaborators and events\<close>

text \<open>
  \<open>TemporaryURL.create\<close> and \<open>User.findOne\<close> return promises. A promise of \<open>create\<close>
  resolves to the stored row, an object; \<open>None\<close> stands for a resolution to a falsy
  value. \<open>findOne\<close> resolves to the row found or to \<open>null\<close>.
\<close>

datatype create_reply = CreateResolved "temporary_url option" | CreateRejected jsval

datatype find_reply = FindResolved "user option" | FindRejected jsval

text \<open>
  \<open>render\<close> gives the pair \<open>(err, HTML)\<close> that \<open>app.render\<close> passes to its callback, \<open>now\<close>
  is the reading of \<open>Date.now()\<close> in milliseconds, \<open>sendMail\<close> gives the pair
  \<open>(err, info.response)\<close> that the transport passes to its callback. Every collaborator
  is taken to answer, and to answer in this way only: none throws into the module, and
  the transport calls back after the code that started it has returned.
\<close>

record env =
  render :: "string \<Rightarrow> renderInfo \<Rightarrow> jsval \<times> jsval"
  now :: int
  create :: "temporary_url \<Rightarrow> create_reply"
  findOne :: "jsval \<Rightarrow> find_reply"
  sendMail :: "email_info \<Rightarrow> jsval \<times> jsval"

text \<open>An argument of a \<open>done\<close> callback: a plain value, a stored row, or an object
  \<open>{message: v}\<close>.\<close>

datatype arg = Prim jsval | Link temporary_url | Info jsval

fun truthy_arg :: "arg \<Rightarrow> bool" where
  "truthy_arg (Prim v) = truthy v"
| "truthy_arg (Link l) = True"
| "truthy_arg (Info m) = True"

text \<open>A parameter that the call gave no argument for is \<open>undefined\<close>.\<close>

definition param :: "arg list \<Rightarrow> nat \<Rightarrow> arg" where
  "param args n = (if n < length args then args ! n else Prim JUndefined)"

datatype exn = ReferenceError string | Rejection jsval

text \<open>
  \<open>Unhandled x\<close> is an exception thrown inside a \<open>then\<close> callback, or a rejection, that
  no \<open>catch\<close> follows: it ends the invocation without any call of \<open>done\<close>.
\<close>

datatype event =
    FindOne jsval
  | Render string renderInfo
  | Create temporary_url
  | SendMail email_info
  | ConsoleLog jsval
  | Done "arg list"
  | Unhandled exn

text \<open>The callback of a caller that does nothing but receive its arguments.\<close>

definition observe :: "arg list \<Rightarrow> event list" where
  "observe args = [Done args]"

subsection \<open>The module\<close>

definition adminEmailAddress :: jsval where
  "adminEmailAddress = JStr ''no-reply@nealblim.com''"

text \<open>
  \<open>sendEmail\<close>: the call of \<open>transporter.sendMail\<close> returns at once; \<open>rest\<close> is what the
  caller of \<open>sendEmail\<close> does next, and the transport's callback, which only logs, runs
  after it.
\<close>

definition sendEmail :: "env \<Rightarrow> email_info \<Rightarrow> event list \<Rightarrow> event list" where
  "sendEmail e m rest =
     SendMail m # rest @
       (case sendMail e m of
          (err, response) \<Rightarrow>
            if truthy err then [ConsoleLog err]
            else [ConsoleLog (JStr (''Email sent: '' @ toString response))])"

definition composeTemporaryLinkEmail ::
    "env \<Rightarrow> renderInfo \<Rightarrow> emailInfo \<Rightarrow> (arg list \<Rightarrow> event list) \<Rightarrow> event list" where
  "composeTemporaryLinkEmail e renderInfo emailInfo done =
     Render (''emails/'' @ template renderInfo @ ''_email'') renderInfo #
     (case render e (''emails/'' @ template renderInfo @ ''_email'') renderInfo of
        (err, HTML) \<Rightarrow>
          if truthy err then done [Prim err]
          else if \<not> truthy HTML then done [Prim JNull, Prim (JBool False)]
          else
            let row = \<lparr>
                  row_id = renderInfo_id renderInfo,
                  expiration_time = now e + timespan renderInfo * 3600000,
                  row_url = renderInfo_url renderInfo,
                  email_info = \<lparr>
                    email_from = (if eq_null (emailInfo_from emailInfo) then adminEmailAddress
                                  else emailInfo_from emailInfo),
                    email_to = emailInfo_to emailInfo,
                    email_cc = (if eq_null (emailInfo_cc emailInfo) then JBool False
                                else emailInfo_cc emailInfo),
                    email_bcc = (if eq_null (emailInfo_bcc emailInfo) then JBool False
                                 else emailInfo_bcc emailInfo),
                    email_subject = emailInfo_subject emailInfo,
                    email_html = toString HTML,
                    email_text = emailInfo_text emailInfo \<rparr> \<rparr>
            in Create row #
               (case create e row of
                  CreateResolved None \<Rightarrow> []
                | CreateResolved (Some newURL) \<Rightarrow>
                    sendEmail e (email_info newURL) (done [Prim JNull, Link newURL])
                | CreateRejected err' \<Rightarrow>
                    done [Prim JNull, Prim (JBool False), Info err']))"

text \<open>The callback \<open>(err, email) => ...\<close> that \<open>sendActivationEmail\<close> gives to the helper.\<close>

definition sendActivationEmail_callback ::
    "(arg list \<Rightarrow> event list) \<Rightarrow> arg list \<Rightarrow> event list" where
  "sendActivationEmail_callback done args =
     (let err = param args 0; email = param args 1
      in if truthy_arg err then done [err]
         else if \<not> truthy_arg email then done [err, Prim (JBool False)]
         else if truthy_arg email then done [Prim JNull, email]
         else [])"

definition sendActivationEmail :: "env \<Rightarrow> info \<Rightarrow> (arg list \<Rightarrow> event list) \<Rightarrow> event list" where
  "sendActivationEmail e info done =
     composeTemporaryLinkEmail e
       \<lparr> template = ''activate'',
         timespan = 24,
         layout = False,
         page_title = ''Please confirm your account, '' @ toString (userName info),
         renderInfo_url = info_url info,
         renderInfo_id = info_id info \<rparr>
       \<lparr> emailInfo_from = JUndefined,
         emailInfo_to = recipientAddress info,
         emailInfo_cc = JUndefined,
         emailInfo_bcc = JUndefined,
         emailInfo_subject =
           JStr (''Welcome to nealblim.com '' @ toString (userName info) @ ''!''),
         emailInfo_text = JStr ''TO DO'' \<rparr>
       (sendActivationEmail_callback done)"

text \<open>The callback \<open>(err, email) => ...\<close> that \<open>sendResetEmail\<close> gives to the helper.\<close>

definition sendResetEmail_callback ::
    "(arg list \<Rightarrow> event list) \<Rightarrow> arg list \<Rightarrow> event list" where
  "sendResetEmail_callback done args =
     (let err = param args 0; email = param args 1
      in if truthy_arg err then done [err]
         else if \<not> truthy_arg email then done [err, Prim (JBool False)]
         else if truthy_arg email then done [Prim JNull, email]
         else [])"

text \<open>
  \<open>sendResetEmail\<close>. In the branch \<open>!user\<close> the arguments of \<open>done\<close> are evaluated first,
  and the first of them is the identifier \<open>err\<close>, which no enclosing scope declares:
  reading it throws a \<open>ReferenceError\<close> inside the \<open>then\<close> callback, and \<open>findOne(...).then\<close>
  has no \<open>catch\<close>.
\<close>

definition sendResetEmail :: "env \<Rightarrow> info \<Rightarrow> (arg list \<Rightarrow> event list) \<Rightarrow> event list" where
  "sendResetEmail e info done =
     FindOne (recipientAddress info) #
     (case findOne e (recipientAddress info) of
        FindRejected r \<Rightarrow> [Unhandled (Rejection r)]
      | FindResolved None \<Rightarrow> [Unhandled (ReferenceError ''err is not defined'')]
      | FindResolved (Some user) \<Rightarrow>
          if \<not> (truthy (user_active user) \<or> truthy (last_login user))
          then done [Prim JNull, Prim (JBool False),
                     Info (JStr ''You must activate your account first.'')]
          else
            composeTemporaryLinkEmail e
              \<lparr> template = ''reset'',
                timespan = 2,
                layout = False,
                page_title = ''How to Reset Your Password'',
                renderInfo_url = info_url info,
                renderInfo_id = user_id user \<rparr>
              \<lparr> emailInfo_from = JUndefined,
                emailInfo_to = recipientAddress info,
                emailInfo_cc = JUndefined,
                emailInfo_bcc = JUndefined,
                emailInfo_subject = JStr ''nealblim.com -- Reset your Password'',
                emailInfo_text = JStr ''TO DO'' \<rparr>
              (sendResetEmail_callback done))"

subsection \<open>Observations on a trace\<close>

text \<open>The rows handed to \<open>TemporaryURL.create\<close>, the messages handed to the transport and
  the argument lists of the calls of the caller's callback, each in order.\<close>

fun creates :: "event list \<Rightarrow> temporary_url list" where
  "creates [] = []"
| "creates (Create r # t) = r # creates t"
| "creates (ev # t) = creates t"

fun sends :: "event list \<Rightarrow> email_info list" where
  "sends [] = []"
| "sends (SendMail m # t) = m # sends t"
| "sends (ev # t) = sends t"

fun calls :: "event list \<Rightarrow> arg list list" where
  "calls [] = []"
| "calls (Done a # t) = a # calls t"
| "calls (ev # t) = calls t"

fun renders :: "event list \<Rightarrow> (string \<times> renderInfo) list" where
  "renders [] = []"
| "renders (Render nm ri # t) = (nm, ri) # renders t"
| "renders (ev # t) = renders t"

subsection \<open>Sample inputs\<close>

text \<open>
  An activation request for Ann with user id 7. In \<open>sample_env\<close> every collaborator
  answers, the store resolves to the row it was given, the user is active, and the
  transport reports an error to its callback.
\<close>

definition sample_info :: info where
  "sample_info = \<lparr>
     recipientAddress = JStr ''a@x.com'',
     userName = JStr ''Ann'',
     info_url = JStr ''/act/abc'',
     info_id = JNum 7 \<rparr>"

definition sample_user :: user where
  "sample_user = \<lparr>
     user_id = JNum 7,
     login_key = JStr ''a@x.com'',
     user_active = JBool True,
     last_login = JNull \<rparr>"

definition sample_env :: env where
  "sample_env = \<lparr>
     render = (\<lambda>name ri. (JNull, JStr ''<html>link</html>'')),
     now = 1596067200000,
     create = (\<lambda>row. CreateResolved (Some row)),
     findOne = (\<lambda>key. FindResolved (Some sample_user)),
     sendMail = (\<lambda>m. (JObj ''Error: spawn /usr/sbin/sendmail ENOENT'', JUndefined)) \<rparr>"

text \<open>The arguments with which \<open>sendActivationEmail\<close> calls the helper for \<open>sample_info\<close>,
  and the rows that the two exported functions hand to the store in \<open>sample_env\<close>.\<close>

definition sample_renderInfo :: renderInfo where
  "sample_renderInfo = \<lparr>
     template = ''activate'',
     timespan = 24,
     layout = False,
     page_title = ''Please confirm your account, Ann'',
     renderInfo_url = JStr ''/act/abc'',
     renderInfo_id = JNum 7 \<rparr>"

definition sample_emailInfo :: emailInfo where
  "sample_emailInfo = \<lparr>
     emailInfo_from = JUndefined,
     emailInfo_to = JStr ''a@x.com'',
     emailInfo_cc = JUndefined,
     emailInfo_bcc = JUndefined,
     emailInfo_subject = JStr ''Welcome to nealblim.com Ann!'',
     emailInfo_text = JStr ''TO DO'' \<rparr>"

definition sample_activation_row :: temporary_url where
  "sample_activation_row = \<lparr>
     row_id = JNum 7,
     expiration_time = 1596153600000,
     row_url = JStr ''/act/abc'',
     email_info = \<lparr>
       email_from = JStr ''no-reply@nealblim.com'',
       email_to = JStr ''a@x.com'',
       email_cc = JBool False,
       email_bcc = JBool False,
       email_subject = JStr ''Welcome to nealblim.com Ann!'',
       email_html = ''<html>link</html>'',
       email_text = JStr ''TO DO'' \<rparr> \<rparr>"

definition sample_reset_row :: temporary_url where
  "sample_reset_row = \<lparr>
     row_id = JNum 7,
     expiration_time = 1596074400000,
     row_url = JStr ''/act/abc'',
     email_info = \<lparr>
       email_from = JStr ''no-reply@nealblim.com'',
       email_to = JStr ''a@x.com'',
       email_cc = JBool False,
       email_bcc = JBool False,
       email_subject = JStr ''nealblim.com -- Reset your Password'',
       email_html = ''<html>link</html>'',
       email_text = JStr ''TO DO'' \<rparr> \<rparr>"

definition sample_reset_renderInfo :: renderInfo where
  "sample_reset_renderInfo = \<lparr>
     template = ''reset'',
     timespan = 2,
     layout = False,
     page_title = ''How to Reset Your Password'',
     renderInfo_url = JStr ''/act/abc'',
     renderInfo_id = JNum 7 \<rparr>"

text \<open>Variants of \<open>sample_env\<close> in which one collaborator answers differently.\<close>

definition sample_env_render_error :: env where
  "sample_env_render_error =
     sample_env \<lparr> render := \<lambda>name ri. (JObj ''Error: Failed to lookup view'', JUndefined) \<rparr>"

definition sample_env_render_empty :: env where
  "sample_env_render_empty = sample_env \<lparr> render := \<lambda>name ri. (JNull, JStr []) \<rparr>"

definition sample_env_store_rejects :: env where
  "sample_env_store_rejects =
     sample_env \<lparr> create := \<lambda>row. CreateRejected (JObj ''SequelizeConnectionError'') \<rparr>"

definition sample_env_store_falsy :: env where
  "sample_env_store_falsy = sample_env \<lparr> create := \<lambda>row. CreateResolved None \<rparr>"

definition sample_env_no_user :: env where
  "sample_env_no_user = sample_env \<lparr> findOne := \<lambda>key. FindResolved None \<rparr>"

definition sample_env_inactive_user :: env where
  "sample_env_inactive_user =
     sample_env \<lparr> findOne :=
       \<lambda>key. FindResolved (Some (sample_user \<lparr> user_active := JBool False \<rparr>)) \<rparr>"

section \<open>Shapes of the traces\<close>

lemma compose_render_err:
  "render e (''emails/'' @ template ri @ ''_email'') ri = (err, HTML) \<Longrightarrow> truthy err \<Longrightarrow>
   composeTemporaryLinkEmail e ri ei done =
     Render (''emails/'' @ template ri @ ''_email'') ri # done [Prim err]"
  by (simp add: composeTemporaryLinkEmail_def)

lemma compose_render_empty:
  "render e (''emails/'' @ template ri @ ''_email'') ri = (err, HTML) \<Longrightarrow>
   \<not> truthy err \<Longrightarrow> \<not> truthy HTML \<Longrightarrow>
   composeTemporaryLinkEmail e ri ei done =
     Render (''emails/'' @ template ri @ ''_email'') ri # done [Prim JNull, Prim (JBool False)]"
  by (simp add: composeTemporaryLinkEmail_def)

lemma compose_rendered:
  assumes "render e (''emails/'' @ template ri @ ''_email'') ri = (err, HTML)"
    and "\<not> truthy err" and "truthy HTML"
  shows "\<exists>r. composeTemporaryLinkEmail e ri ei done =
            Render (''emails/'' @ template ri @ ''_email'') ri # Create r #
              (case create e r of
                 CreateResolved None \<Rightarrow> []
               | CreateResolved (Some newURL) \<Rightarrow>
                   sendEmail e (email_info newURL) (done [Prim JNull, Link newURL])
               | CreateRejected x \<Rightarrow> done [Prim JNull, Prim (JBool False), Info x]) \<and>
          expiration_time r = now e + timespan ri * 3600000 \<and>
          email_from (email_info r) =
            (if eq_null (emailInfo_from ei) then adminEmailAddress else emailInfo_from ei) \<and>
          email_cc (email_info r) =
            (if eq_null (emailInfo_cc ei) then JBool False else emailInfo_cc ei) \<and>
          email_bcc (email_info r) =
            (if eq_null (emailInfo_bcc ei) then JBool False else emailInfo_bcc ei)"
  using assms by (simp add: composeTemporaryLinkEmail_def Let_def)

lemma sendEmail_log:
  "\<exists>lg. sendEmail e m rest = SendMail m # rest @ [ConsoleLog lg] \<and>
        (truthy (fst (sendMail e m)) \<longrightarrow> lg = fst (sendMail e m))"
  by (simp add: sendEmail_def split: prod.splits)

text \<open>
  The five ways an invocation of the helper can go, for a callback \<open>cb\<close> that hands what
  it receives to the caller's callback; \<open>rej x\<close> is what the caller's callback receives
  when the store rejects with \<open>x\<close>.
\<close>

lemma compose_shapes
  [consumes 1, case_names render_failed render_empty create_falsy create_rejected created]:
  assumes t: "t = pre @ composeTemporaryLinkEmail e ri ei cb"
    and cb1: "\<And>err. truthy err \<Longrightarrow> cb [Prim err] = [Done [Prim err]]"
    and cb2: "cb [Prim JNull, Prim (JBool False)] = [Done [Prim JNull, Prim (JBool False)]]"
    and cb3: "\<And>x. cb [Prim JNull, Prim (JBool False), Info x] = [Done (rej x)]"
    and cb4: "\<And>l. cb [Prim JNull, Link l] = [Done [Prim JNull, Link l]]"
  obtains
    (render_failed) nm err HTML where
      "render e nm ri = (err, HTML)" "truthy err"
      "t = pre @ [Render nm ri, Done [Prim err]]"
  | (render_empty) nm err HTML where
      "render e nm ri = (err, HTML)" "\<not> truthy err" "\<not> truthy HTML"
      "t = pre @ [Render nm ri, Done [Prim JNull, Prim (JBool False)]]"
  | (create_falsy) nm err HTML r where
      "render e nm ri = (err, HTML)" "\<not> truthy err" "truthy HTML"
      "create e r = CreateResolved None"
      "t = pre @ [Render nm ri, Create r]"
      "expiration_time r = now e + timespan ri * 3600000"
      "email_from (email_info r) =
         (if eq_null (emailInfo_from ei) then adminEmailAddress else emailInfo_from ei)"
      "email_cc (email_info r) =
         (if eq_null (emailInfo_cc ei) then JBool False else emailInfo_cc ei)"
      "email_bcc (email_info r) =
         (if eq_null (emailInfo_bcc ei) then JBool False else emailInfo_bcc ei)"
  | (create_rejected) nm err HTML r x where
      "render e nm ri = (err, HTML)" "\<not> truthy err" "truthy HTML"
      "create e r = CreateRejected x"
      "t = pre @ [Render nm ri, Create r, Done (rej x)]"
      "expiration_time r = now e + timespan ri * 3600000"
      "email_from (email_info r) =
         (if eq_null (emailInfo_from ei) then adminEmailAddress else emailInfo_from ei)"
      "email_cc (email_info r) =
         (if eq_null (emailInfo_cc ei) then JBool False else emailInfo_cc ei)"
      "email_bcc (email_info r) =
         (if eq_null (emailInfo_bcc ei) then JBool False else emailInfo_bcc ei)"
  | (created) nm err HTML r l lg where
      "render e nm ri = (err, HTML)" "\<not> truthy err" "truthy HTML"
      "create e r = CreateResolved (Some l)"
      "t = pre @ [Render nm ri, Create r, SendMail (email_info l), Done [Prim JNull, Link l],
          ConsoleLog lg]"
      "truthy (fst (sendMail e (email_info l))) \<longrightarrow> lg = fst (sendMail e (email_info l))"
      "expiration_time r = now e + timespan ri * 3600000"
      "email_from (email_info r) =
         (if eq_null (emailInfo_from ei) then adminEmailAddress else emailInfo_from ei)"
      "email_cc (email_info r) =
         (if eq_null (emailInfo_cc ei) then JBool False else emailInfo_cc ei)"
      "email_bcc (email_info r) =
         (if eq_null (emailInfo_bcc ei) then JBool False else emailInfo_bcc ei)"
proof -
  let ?nm = "''emails/'' @ template ri @ ''_email''"
  obtain err HTML where rd: "render e ?nm ri = (err, HTML)"
    by (cases "render e ?nm ri")
  show thesis
  proof (cases "truthy err")
    case True
    from t compose_render_err [OF rd True, of ei cb] cb1 [OF True]
    have "t = pre @ [Render ?nm ri, Done [Prim err]]"
      by simp
    with rd True show thesis by (rule render_failed)
  next
    case nerr: False
    show thesis
    proof (cases "truthy HTML")
      case False
      from t compose_render_empty [OF rd nerr False, of ei cb] cb2
      have "t = pre @ [Render ?nm ri, Done [Prim JNull, Prim (JBool False)]]"
        by simp
      with rd nerr False show thesis by (rule render_empty)
    next
      case True
      from compose_rendered [OF rd nerr True, of ei cb] obtain r where
        tr: "composeTemporaryLinkEmail e ri ei cb =
            Render ?nm ri # Create r #
              (case create e r of
                 CreateResolved None \<Rightarrow> []
               | CreateResolved (Some newURL) \<Rightarrow>
                   sendEmail e (email_info newURL) (cb [Prim JNull, Link newURL])
               | CreateRejected x \<Rightarrow> cb [Prim JNull, Prim (JBool False), Info x])"
        and p: "expiration_time r = now e + timespan ri * 3600000"
          "email_from (email_info r) =
            (if eq_null (emailInfo_from ei) then adminEmailAddress else emailInfo_from ei)"
          "email_cc (email_info r) =
            (if eq_null (emailInfo_cc ei) then JBool False else emailInfo_cc ei)"
          "email_bcc (email_info r) =
            (if eq_null (emailInfo_bcc ei) then JBool False else emailInfo_bcc ei)"
        by blast
      show thesis
      proof (cases "create e r")
        case (CreateRejected x)
        with t tr cb3 [of x]
        have eq: "t = pre @ [Render ?nm ri, Create r, Done (rej x)]"
          by simp
        from rd nerr True CreateRejected eq p show thesis by (rule create_rejected)
      next
        case (CreateResolved stored)
        show thesis
        proof (cases stored)
          case None
          with t tr CreateResolved
          have eq: "t = pre @ [Render ?nm ri, Create r]"
            by simp
          from rd nerr True CreateResolved [unfolded None] eq p show thesis
            by (rule create_falsy)
        next
          case (Some l)
          from sendEmail_log [of e "email_info l" "cb [Prim JNull, Link l]"] obtain lg where
            se: "sendEmail e (email_info l) (cb [Prim JNull, Link l]) =
                  SendMail (email_info l) # cb [Prim JNull, Link l] @ [ConsoleLog lg]"
            and lg: "truthy (fst (sendMail e (email_info l))) \<longrightarrow>
                  lg = fst (sendMail e (email_info l))"
            by blast
          from t tr CreateResolved Some se cb4 [of l]
          have eq: "t = pre @ [Render ?nm ri, Create r, SendMail (email_info l),
               Done [Prim JNull, Link l], ConsoleLog lg]"
            by simp
          from rd nerr True CreateResolved [unfolded Some] eq lg p show thesis
            by (rule created)
        qed
      qed
    qed
  qed
qed

lemma observe_relays:
  "truthy err \<Longrightarrow> observe [Prim err] = [Done [Prim err]]"
  "observe [Prim JNull, Prim (JBool False)] = [Done [Prim JNull, Prim (JBool False)]]"
  "observe [Prim JNull, Prim (JBool False), Info x] =
     [Done [Prim JNull, Prim (JBool False), Info x]]"
  "observe [Prim JNull, Link l] = [Done [Prim JNull, Link l]]"
  by (simp_all add: observe_def)

lemma activation_callback_relays:
  "truthy err \<Longrightarrow> sendActivationEmail_callback observe [Prim err] = [Done [Prim err]]"
  "sendActivationEmail_callback observe [Prim JNull, Prim (JBool False)] =
     [Done [Prim JNull, Prim (JBool False)]]"
  "sendActivationEmail_callback observe [Prim JNull, Prim (JBool False), Info x] =
     [Done [Prim JNull, Prim (JBool False)]]"
  "sendActivationEmail_callback observe [Prim JNull, Link l] = [Done [Prim JNull, Link l]]"
  by (simp_all add: sendActivationEmail_callback_def param_def observe_def)

lemma reset_callback_relays:
  "truthy err \<Longrightarrow> sendResetEmail_callback observe [Prim err] = [Done [Prim err]]"
  "sendResetEmail_callback observe [Prim JNull, Prim (JBool False)] =
     [Done [Prim JNull, Prim (JBool False)]]"
  "sendResetEmail_callback observe [Prim JNull, Prim (JBool False), Info x] =
     [Done [Prim JNull, Prim (JBool False)]]"
  "sendResetEmail_callback observe [Prim JNull, Link l] = [Done [Prim JNull, Link l]]"
  by (simp_all add: sendResetEmail_callback_def param_def observe_def)


lemma helper_trace:
  "composeTemporaryLinkEmail e ri ei observe = [] @ composeTemporaryLinkEmail e ri ei observe"
  by simp

lemma activation_trace:
  obtains ri ei where
    "sendActivationEmail e info observe =
       [] @ composeTemporaryLinkEmail e ri ei (sendActivationEmail_callback observe)"
    "timespan ri = 24" "emailInfo_from ei = JUndefined"
    "emailInfo_cc ei = JUndefined" "emailInfo_bcc ei = JUndefined"
  by (simp add: sendActivationEmail_def)

lemma reset_trace [case_names find_rejected not_found not_activated compose]:
  obtains
    (find_rejected) x where
      "findOne e (recipientAddress info) = FindRejected x"
      "sendResetEmail e info observe = [FindOne (recipientAddress info), Unhandled (Rejection x)]"
  | (not_found)
      "findOne e (recipientAddress info) = FindResolved None"
      "sendResetEmail e info observe =
         [FindOne (recipientAddress info), Unhandled (ReferenceError ''err is not defined'')]"
  | (not_activated) user where
      "findOne e (recipientAddress info) = FindResolved (Some user)"
      "\<not> truthy (user_active user)" "\<not> truthy (last_login user)"
      "sendResetEmail e info observe =
         [FindOne (recipientAddress info),
          Done [Prim JNull, Prim (JBool False),
                Info (JStr ''You must activate your account first.'')]]"
  | (compose) user ri ei where
      "findOne e (recipientAddress info) = FindResolved (Some user)"
      "truthy (user_active user) \<or> truthy (last_login user)"
      "sendResetEmail e info observe =
         [FindOne (recipientAddress info)] @
           composeTemporaryLinkEmail e ri ei (sendResetEmail_callback observe)"
      "timespan ri = 2" "emailInfo_from ei = JUndefined"
      "emailInfo_cc ei = JUndefined" "emailInfo_bcc ei = JUndefined"
proof (cases "findOne e (recipientAddress info)")
  case (FindRejected x)
  then show thesis
    by (intro find_rejected [of x]) (simp_all add: sendResetEmail_def)
next
  case (FindResolved found)
  show thesis
  proof (cases found)
    case None
    with FindResolved show thesis
      by (intro not_found) (simp_all add: sendResetEmail_def)
  next
    case (Some user)
    show thesis
    proof (cases "truthy (user_active user) \<or> truthy (last_login user)")
      case False
      with FindResolved Some show thesis
        by (intro not_activated [of user]) (simp_all add: sendResetEmail_def observe_def)
    next
      case True
      with FindResolved Some show thesis
        by (intro compose [of user]) (simp_all add: sendResetEmail_def, simp_all)
    qed
  qed
qed


lemmas helper_shapes [consumes 1] = compose_shapes [OF _ observe_relays]
lemmas activation_shapes [consumes 1] = compose_shapes [OF _ activation_callback_relays]
lemmas reset_shapes [consumes 1] = compose_shapes [OF _ reset_callback_relays]


section \<open>Runs on the sample inputs\<close>

lemmas module_defs =
  sendActivationEmail_def sendResetEmail_def composeTemporaryLinkEmail_def
  sendActivationEmail_callback_def sendResetEmail_callback_def sendEmail_def
  observe_def param_def adminEmailAddress_def Let_def

lemmas sample_defs =
  sample_env_def sample_info_def sample_user_def sample_renderInfo_def sample_emailInfo_def
  sample_activation_row_def sample_reset_row_def sample_reset_renderInfo_def
  sample_env_render_error_def sample_env_render_empty_def sample_env_store_rejects_def
  sample_env_store_falsy_def sample_env_no_user_def sample_env_inactive_user_def

lemma sample_helper_run:
  "composeTemporaryLinkEmail sample_env sample_renderInfo sample_emailInfo observe =
     [Render ''emails/activate_email'' sample_renderInfo,
      Create sample_activation_row,
      SendMail (email_info sample_activation_row),
      Done [Prim JNull, Link sample_activation_row],
      ConsoleLog (JObj ''Error: spawn /usr/sbin/sendmail ENOENT'')]"
  by (simp add: module_defs sample_defs)

lemma sample_activation_run:
  "sendActivationEmail sample_env sample_info observe =
     [Render ''emails/activate_email'' sample_renderInfo,
      Create sample_activation_row,
      SendMail (email_info sample_activation_row),
      Done [Prim JNull, Link sample_activation_row],
      ConsoleLog (JObj ''Error: spawn /usr/sbin/sendmail ENOENT'')]"
  by (simp add: module_defs sample_defs)

lemma sample_reset_run:
  "sendResetEmail sample_env sample_info observe =
     [FindOne (JStr ''a@x.com''),
      Render ''emails/reset_email'' sample_reset_renderInfo,
      Create sample_reset_row,
      SendMail (email_info sample_reset_row),
      Done [Prim JNull, Link sample_reset_row],
      ConsoleLog (JObj ''Error: spawn /usr/sbin/sendmail ENOENT'')]"
  by (simp add: module_defs sample_defs)

section \<open>Expiry of an issued link\<close>

text \<open>
  C1. Whenever \<open>sendActivationEmail\<close> reports success to its caller with a stored row \<open>l\<close>,
  the invocation handed exactly one row \<open>r\<close> to the store, the store resolved that request
  to \<open>l\<close>, and the expiration time of \<open>r\<close> is the reading of the clock plus 24 times
  3,600,000 ms; for \<open>sendResetEmail\<close> it is the reading plus 2 times 3,600,000 ms.
  (A reading of \<open>Date.now()\<close> is an integer of magnitude at most 8.64e15, so the sum is below
  \<open>2 ^ 53\<close> and the double arithmetic of the source is the integer arithmetic used here.)
\<close>

theorem issued_link_expiration:
  "([Prim JNull, Link l] \<in> set (calls (sendActivationEmail e info observe)) \<longrightarrow>
      (\<exists>r. creates (sendActivationEmail e info observe) = [r] \<and>
           create e r = CreateResolved (Some l) \<and>
           expiration_time r = now e + 24 * 3600000)) \<and>
   ([Prim JNull, Link l'] \<in> set (calls (sendResetEmail e info observe)) \<longrightarrow>
      (\<exists>r. creates (sendResetEmail e info observe) = [r] \<and>
           create e r = CreateResolved (Some l') \<and>
           expiration_time r = now e + 2 * 3600000))"
proof (intro conjI impI)
  assume ok: "[Prim JNull, Link l] \<in> set (calls (sendActivationEmail e info observe))"
  obtain ri ei where t: "sendActivationEmail e info observe =
      [] @ composeTemporaryLinkEmail e ri ei (sendActivationEmail_callback observe)"
    and h: "timespan ri = 24"
    by (rule activation_trace)
  from t ok h show "\<exists>r. creates (sendActivationEmail e info observe) = [r] \<and>
      create e r = CreateResolved (Some l) \<and> expiration_time r = now e + 24 * 3600000"
    by (cases rule: activation_shapes) auto
next
  assume ok: "[Prim JNull, Link l'] \<in> set (calls (sendResetEmail e info observe))"
  show "\<exists>r. creates (sendResetEmail e info observe) = [r] \<and>
      create e r = CreateResolved (Some l') \<and> expiration_time r = now e + 2 * 3600000"
  proof (cases rule: reset_trace [of e info])
    case (compose user ri ei)
    from compose(3) ok compose(4) show ?thesis
      by (cases rule: reset_shapes) auto
  qed (use ok in auto)
qed

theorem issued_link_expiration_witness:
  "[Prim JNull, Link sample_activation_row] \<in>
     set (calls (sendActivationEmail sample_env sample_info observe)) \<and>
   [Prim JNull, Link sample_reset_row] \<in>
     set (calls (sendResetEmail sample_env sample_info observe)) \<and>
   (\<exists>r. creates (sendActivationEmail sample_env sample_info observe) = [r] \<and>
        create sample_env r = CreateResolved (Some sample_activation_row) \<and>
        expiration_time r = 1596067200000 + 24 * 3600000) \<and>
   (\<exists>r. creates (sendResetEmail sample_env sample_info observe) = [r] \<and>
        create sample_env r = CreateResolved (Some sample_reset_row) \<and>
        expiration_time r = 1596067200000 + 2 * 3600000)"
proof -
  have a: "[Prim JNull, Link sample_activation_row] \<in>
      set (calls (sendActivationEmail sample_env sample_info observe))"
    by (simp add: sample_activation_run)
  have b: "[Prim JNull, Link sample_reset_row] \<in>
      set (calls (sendResetEmail sample_env sample_info observe))"
    by (simp add: sample_reset_run)
  have n: "now sample_env = 1596067200000"
    by (simp add: sample_env_def)
  from a b issued_link_expiration [of sample_activation_row sample_env sample_info
      sample_reset_row]
  show ?thesis
    unfolding n by blast
qed

section \<open>The send follows the persistence\<close>

text \<open>
  C2. In every invocation of \<open>composeTemporaryLinkEmail\<close>, a call of the transport with a
  message \<open>m\<close> comes after the one call of the store, that call resolved to a row \<open>l\<close>, and
  \<open>m\<close> is the message of \<open>l\<close>; the callback is called once, after the send was started,
  with \<open>(null, l)\<close>, whatever the transport answers: an error of the transport is logged
  and nothing else. When the store does not resolve to a row, the transport is never
  called.
\<close>

theorem send_follows_persistence:
  "(composeTemporaryLinkEmail e ri ei observe = pre @ SendMail m # post \<longrightarrow>
      (\<exists>r l. creates pre = [r] \<and> create e r = CreateResolved (Some l) \<and>
             m = email_info l \<and> sends pre = [] \<and> sends post = [] \<and>
             calls pre = [] \<and> calls post = [[Prim JNull, Link l]] \<and>
             (truthy (fst (sendMail e m)) \<longrightarrow> ConsoleLog (fst (sendMail e m)) \<in> set post))) \<and>
   (r' \<in> set (creates (composeTemporaryLinkEmail e ri ei observe)) \<and>
      (\<forall>l. create e r' \<noteq> CreateResolved (Some l)) \<longrightarrow>
      sends (composeTemporaryLinkEmail e ri ei observe) = [])"
proof (intro conjI impI)
  assume s: "composeTemporaryLinkEmail e ri ei observe = pre @ SendMail m # post"
  from helper_trace [of e ri ei] s
  show "\<exists>r l. creates pre = [r] \<and> create e r = CreateResolved (Some l) \<and>
             m = email_info l \<and> sends pre = [] \<and> sends post = [] \<and>
             calls pre = [] \<and> calls post = [[Prim JNull, Link l]] \<and>
             (truthy (fst (sendMail e m)) \<longrightarrow> ConsoleLog (fst (sendMail e m)) \<in> set post)"
    by (cases rule: helper_shapes) (auto simp: Cons_eq_append_conv)
next
  assume f: "r' \<in> set (creates (composeTemporaryLinkEmail e ri ei observe)) \<and>
      (\<forall>l. create e r' \<noteq> CreateResolved (Some l))"
  from helper_trace [of e ri ei] f
  show "sends (composeTemporaryLinkEmail e ri ei observe) = []"
    by (cases rule: helper_shapes) auto
qed

theorem send_follows_persistence_witness:
  "composeTemporaryLinkEmail sample_env sample_renderInfo sample_emailInfo observe =
     [Render ''emails/activate_email'' sample_renderInfo, Create sample_activation_row] @
     SendMail (email_info sample_activation_row) #
     [Done [Prim JNull, Link sample_activation_row],
      ConsoleLog (JObj ''Error: spawn /usr/sbin/sendmail ENOENT'')] \<and>
   truthy (fst (sendMail sample_env (email_info sample_activation_row))) \<and>
   (\<exists>r l. creates [Render ''emails/activate_email'' sample_renderInfo,
                   Create sample_activation_row] = [r] \<and>
          create sample_env r = CreateResolved (Some l) \<and>
          calls [Done [Prim JNull, Link sample_activation_row],
                 ConsoleLog (JObj ''Error: spawn /usr/sbin/sendmail ENOENT'')] =
            [[Prim JNull, Link l]]) \<and>
   sample_activation_row \<in> set (creates (composeTemporaryLinkEmail
      sample_env_store_rejects
      sample_renderInfo sample_emailInfo observe)) \<and>
   create sample_env_store_rejects
      sample_activation_row = CreateRejected (JObj ''SequelizeConnectionError'') \<and>
   sends (composeTemporaryLinkEmail
      sample_env_store_rejects
      sample_renderInfo sample_emailInfo observe) = []"
proof -
  let ?rej = sample_env_store_rejects
  have a: "composeTemporaryLinkEmail sample_env sample_renderInfo sample_emailInfo observe =
     [Render ''emails/activate_email'' sample_renderInfo, Create sample_activation_row] @
     SendMail (email_info sample_activation_row) #
     [Done [Prim JNull, Link sample_activation_row],
      ConsoleLog (JObj ''Error: spawn /usr/sbin/sendmail ENOENT'')]"
    by (simp add: sample_helper_run)
  have b: "truthy (fst (sendMail sample_env (email_info sample_activation_row)))"
    by (simp add: sample_env_def)
  have c: "sample_activation_row \<in> set (creates (composeTemporaryLinkEmail ?rej
      sample_renderInfo sample_emailInfo observe))"
    by (simp add: module_defs sample_defs)
  have d: "create ?rej sample_activation_row = CreateRejected (JObj ''SequelizeConnectionError'')"
    by (simp add: sample_defs)
  from d have d': "\<forall>l. create ?rej sample_activation_row \<noteq> CreateResolved (Some l)"
    by simp
  from a b
    send_follows_persistence [of sample_env sample_renderInfo sample_emailInfo
      "[Render ''emails/activate_email'' sample_renderInfo, Create sample_activation_row]"
      "email_info sample_activation_row"
      "[Done [Prim JNull, Link sample_activation_row],
        ConsoleLog (JObj ''Error: spawn /usr/sbin/sendmail ENOENT'')]"]
  have first: "\<exists>r l. creates [Render ''emails/activate_email'' sample_renderInfo,
                   Create sample_activation_row] = [r] \<and>
          create sample_env r = CreateResolved (Some l) \<and>
          calls [Done [Prim JNull, Link sample_activation_row],
                 ConsoleLog (JObj ''Error: spawn /usr/sbin/sendmail ENOENT'')] =
            [[Prim JNull, Link l]]"
    by blast
  from c d'
    send_follows_persistence [of ?rej sample_renderInfo sample_emailInfo _ _ _
      sample_activation_row]
  have second: "sends (composeTemporaryLinkEmail ?rej sample_renderInfo sample_emailInfo
      observe) = []"
    by blast
  from a b first c d second show ?thesis
    by blast
qed

section \<open>An error of the renderer\<close>

text \<open>
  C8. When the renderer answers the render call of an invocation with an error \<open>err\<close>, the
  invocation hands no row to the store, sends no email, and calls the caller's callback
  once, with \<open>err\<close> itself as the only argument. This holds of the helper and of both
  exported functions.
\<close>

theorem render_error_propagated:
  assumes "render e nm ri = (err, HTML)"
    and "truthy err"
  shows
    "((nm, ri) \<in> set (renders (composeTemporaryLinkEmail e ri0 ei observe)) \<longrightarrow>
        creates (composeTemporaryLinkEmail e ri0 ei observe) = [] \<and>
        sends (composeTemporaryLinkEmail e ri0 ei observe) = [] \<and>
        calls (composeTemporaryLinkEmail e ri0 ei observe) = [[Prim err]]) \<and>
     ((nm, ri) \<in> set (renders (sendActivationEmail e info observe)) \<longrightarrow>
        creates (sendActivationEmail e info observe) = [] \<and>
        sends (sendActivationEmail e info observe) = [] \<and>
        calls (sendActivationEmail e info observe) = [[Prim err]]) \<and>
     ((nm, ri) \<in> set (renders (sendResetEmail e info observe)) \<longrightarrow>
        creates (sendResetEmail e info observe) = [] \<and>
        sends (sendResetEmail e info observe) = [] \<and>
        calls (sendResetEmail e info observe) = [[Prim err]])"
proof -
  have helper:
    "((nm, ri) \<in> set (renders (composeTemporaryLinkEmail e ri0 ei observe)) \<longrightarrow>
       creates (composeTemporaryLinkEmail e ri0 ei observe) = [] \<and>
       sends (composeTemporaryLinkEmail e ri0 ei observe) = [] \<and>
       calls (composeTemporaryLinkEmail e ri0 ei observe) = [[Prim err]])"
  proof
    assume h: "(nm, ri) \<in> set (renders (composeTemporaryLinkEmail e ri0 ei observe))"
    from helper_trace [of e ri0 ei] h assms
    show "creates (composeTemporaryLinkEmail e ri0 ei observe) = [] \<and>
      sends (composeTemporaryLinkEmail e ri0 ei observe) = [] \<and>
      calls (composeTemporaryLinkEmail e ri0 ei observe) = [[Prim err]]"
      by (cases rule: helper_shapes) auto
  qed
  have activation:
    "((nm, ri) \<in> set (renders (sendActivationEmail e info observe)) \<longrightarrow>
       creates (sendActivationEmail e info observe) = [] \<and>
       sends (sendActivationEmail e info observe) = [] \<and>
       calls (sendActivationEmail e info observe) = [[Prim err]])"
  proof
    assume h: "(nm, ri) \<in> set (renders (sendActivationEmail e info observe))"
    obtain ri1 ei1 where t: "sendActivationEmail e info observe =
        [] @ composeTemporaryLinkEmail e ri1 ei1 (sendActivationEmail_callback observe)"
      by (rule activation_trace)
    from t h assms
    show "creates (sendActivationEmail e info observe) = [] \<and>
      sends (sendActivationEmail e info observe) = [] \<and>
      calls (sendActivationEmail e info observe) = [[Prim err]]"
      by (cases rule: activation_shapes) auto
  qed
  have reset:
    "((nm, ri) \<in> set (renders (sendResetEmail e info observe)) \<longrightarrow>
       creates (sendResetEmail e info observe) = [] \<and>
       sends (sendResetEmail e info observe) = [] \<and>
       calls (sendResetEmail e info observe) = [[Prim err]])"
  proof
    assume h: "(nm, ri) \<in> set (renders (sendResetEmail e info observe))"
    show "creates (sendResetEmail e info observe) = [] \<and>
      sends (sendResetEmail e info observe) = [] \<and>
      calls (sendResetEmail e info observe) = [[Prim err]]"
    proof (cases rule: reset_trace [of e info])
      case (compose user ri1 ei1)
      from compose(3) h assms show ?thesis
        by (cases rule: reset_shapes) auto
    qed (use h in auto)
  qed
  from helper activation reset show ?thesis
    by (intro conjI)
qed

lemma sample_render_error_runs:
  "composeTemporaryLinkEmail sample_env_render_error sample_renderInfo sample_emailInfo observe =
     [Render ''emails/activate_email'' sample_renderInfo,
      Done [Prim (JObj ''Error: Failed to lookup view'')]]"
  "sendActivationEmail sample_env_render_error sample_info observe =
     [Render ''emails/activate_email'' sample_renderInfo,
      Done [Prim (JObj ''Error: Failed to lookup view'')]]"
  "sendResetEmail sample_env_render_error sample_info observe =
     [FindOne (JStr ''a@x.com''), Render ''emails/reset_email'' sample_reset_renderInfo,
      Done [Prim (JObj ''Error: Failed to lookup view'')]]"
  by (simp_all add: module_defs sample_defs)

theorem render_error_propagated_witness:
  "render sample_env_render_error ''emails/activate_email'' sample_renderInfo =
     (JObj ''Error: Failed to lookup view'', JUndefined) \<and>
   render sample_env_render_error ''emails/reset_email'' sample_reset_renderInfo =
     (JObj ''Error: Failed to lookup view'', JUndefined) \<and>
   truthy (JObj ''Error: Failed to lookup view'') \<and>
   (''emails/activate_email'', sample_renderInfo) \<in> set (renders (composeTemporaryLinkEmail
      sample_env_render_error sample_renderInfo sample_emailInfo observe)) \<and>
   (''emails/activate_email'', sample_renderInfo) \<in> set (renders (sendActivationEmail
      sample_env_render_error sample_info observe)) \<and>
   (''emails/reset_email'', sample_reset_renderInfo) \<in> set (renders (sendResetEmail
      sample_env_render_error sample_info observe)) \<and>
   calls (composeTemporaryLinkEmail sample_env_render_error sample_renderInfo sample_emailInfo
      observe) = [[Prim (JObj ''Error: Failed to lookup view'')]] \<and>
   calls (sendActivationEmail sample_env_render_error sample_info observe) =
      [[Prim (JObj ''Error: Failed to lookup view'')]] \<and>
   calls (sendResetEmail sample_env_render_error sample_info observe) =
      [[Prim (JObj ''Error: Failed to lookup view'')]] \<and>
   creates (sendActivationEmail sample_env_render_error sample_info observe) = [] \<and>
   sends (sendActivationEmail sample_env_render_error sample_info observe) = []"
proof -
  have a: "render sample_env_render_error ''emails/activate_email'' sample_renderInfo =
      (JObj ''Error: Failed to lookup view'', JUndefined)"
    and b: "render sample_env_render_error ''emails/reset_email'' sample_reset_renderInfo =
      (JObj ''Error: Failed to lookup view'', JUndefined)"
    by (simp_all add: sample_defs)
  have f: "truthy (JObj ''Error: Failed to lookup view'')"
    by simp
  have r: "(''emails/activate_email'', sample_renderInfo) \<in> set (renders
        (composeTemporaryLinkEmail sample_env_render_error sample_renderInfo sample_emailInfo
           observe))"
      "(''emails/activate_email'', sample_renderInfo) \<in> set (renders (sendActivationEmail
        sample_env_render_error sample_info observe))"
      "(''emails/reset_email'', sample_reset_renderInfo) \<in> set (renders (sendResetEmail
        sample_env_render_error sample_info observe))"
    by (simp_all add: sample_render_error_runs)
  from a b f r
    render_error_propagated [OF a f, of sample_renderInfo sample_emailInfo sample_info]
    render_error_propagated [OF b f, of sample_renderInfo sample_emailInfo sample_info]
  show ?thesis
    by blast
qed

section \<open>Empty output of the renderer\<close>

text \<open>
  C3. When the renderer answers the render call of an invocation without an error and
  with falsy output, the invocation hands no row to the store, sends no email, and calls
  the caller's callback once, with \<open>(null, false)\<close>: a falsy result and no error object.
  This holds of the helper and of both exported functions.
\<close>

theorem empty_render_reports_failure:
  assumes "render e nm ri = (err, HTML)"
    and "\<not> truthy err"
    and "\<not> truthy HTML"
  shows
    "((nm, ri) \<in> set (renders (composeTemporaryLinkEmail e ri0 ei observe)) \<longrightarrow>
        creates (composeTemporaryLinkEmail e ri0 ei observe) = [] \<and>
        sends (composeTemporaryLinkEmail e ri0 ei observe) = [] \<and>
        calls (composeTemporaryLinkEmail e ri0 ei observe) =
          [[Prim JNull, Prim (JBool False)]]) \<and>
     ((nm, ri) \<in> set (renders (sendActivationEmail e info observe)) \<longrightarrow>
        creates (sendActivationEmail e info observe) = [] \<and>
        sends (sendActivationEmail e info observe) = [] \<and>
        calls (sendActivationEmail e info observe) =
          [[Prim JNull, Prim (JBool False)]]) \<and>
     ((nm, ri) \<in> set (renders (sendResetEmail e info observe)) \<longrightarrow>
        creates (sendResetEmail e info observe) = [] \<and>
        sends (sendResetEmail e info observe) = [] \<and>
        calls (sendResetEmail e info observe) =
          [[Prim JNull, Prim (JBool False)]])"
proof -
  have helper:
    "((nm, ri) \<in> set (renders (composeTemporaryLinkEmail e ri0 ei observe)) \<longrightarrow>
       creates (composeTemporaryLinkEmail e ri0 ei observe) = [] \<and>
       sends (composeTemporaryLinkEmail e ri0 ei observe) = [] \<and>
       calls (composeTemporaryLinkEmail e ri0 ei observe) =
         [[Prim JNull, Prim (JBool False)]])"
  proof
    assume h: "(nm, ri) \<in> set (renders (composeTemporaryLinkEmail e ri0 ei observe))"
    from helper_trace [of e ri0 ei] h assms
    show "creates (composeTemporaryLinkEmail e ri0 ei observe) = [] \<and>
      sends (composeTemporaryLinkEmail e ri0 ei observe) = [] \<and>
      calls (composeTemporaryLinkEmail e ri0 ei observe) =
        [[Prim JNull, Prim (JBool False)]]"
      by (cases rule: helper_shapes) auto
  qed
  have activation:
    "((nm, ri) \<in> set (renders (sendActivationEmail e info observe)) \<longrightarrow>
       creates (sendActivationEmail e info observe) = [] \<and>
       sends (sendActivationEmail e info observe) = [] \<and>
       calls (sendActivationEmail e info observe) =
         [[Prim JNull, Prim (JBool False)]])"
  proof
    assume h: "(nm, ri) \<in> set (renders (sendActivationEmail e info observe))"
    obtain ri1 ei1 where t: "sendActivationEmail e info observe =
        [] @ composeTemporaryLinkEmail e ri1 ei1 (sendActivationEmail_callback observe)"
      by (rule activation_trace)
    from t h assms
    show "creates (sendActivationEmail e info observe) = [] \<and>
      sends (sendActivationEmail e info observe) = [] \<and>
      calls (sendActivationEmail e info observe) =
        [[Prim JNull, Prim (JBool False)]]"
      by (cases rule: activation_shapes) auto
  qed
  have reset:
    "((nm, ri) \<in> set (renders (sendResetEmail e info observe)) \<longrightarrow>
       creates (sendResetEmail e info observe) = [] \<and>
       sends (sendResetEmail e info observe) = [] \<and>
       calls (sendResetEmail e info observe) =
         [[Prim JNull, Prim (JBool False)]])"
  proof
    assume h: "(nm, ri) \<in> set (renders (sendResetEmail e info observe))"
    show "creates (sendResetEmail e info observe) = [] \<and>
      sends (sendResetEmail e info observe) = [] \<and>
      calls (sendResetEmail e info observe) =
        [[Prim JNull, Prim (JBool False)]]"
    proof (cases rule: reset_trace [of e info])
      case (compose user ri1 ei1)
      from compose(3) h assms show ?thesis
        by (cases rule: reset_shapes) auto
    qed (use h in auto)
  qed
  from helper activation reset show ?thesis
    by (intro conjI)
qed

lemma sample_render_empty_runs:
  "composeTemporaryLinkEmail sample_env_render_empty sample_renderInfo sample_emailInfo observe =
     [Render ''emails/activate_email'' sample_renderInfo, Done [Prim JNull, Prim (JBool False)]]"
  "sendActivationEmail sample_env_render_empty sample_info observe =
     [Render ''emails/activate_email'' sample_renderInfo, Done [Prim JNull, Prim (JBool False)]]"
  "sendResetEmail sample_env_render_empty sample_info observe =
     [FindOne (JStr ''a@x.com''), Render ''emails/reset_email'' sample_reset_renderInfo,
      Done [Prim JNull, Prim (JBool False)]]"
  by (simp_all add: module_defs sample_defs)

theorem empty_render_reports_failure_witness:
  "render sample_env_render_empty ''emails/activate_email'' sample_renderInfo =
     (JNull, JStr []) \<and>
   render sample_env_render_empty ''emails/reset_email'' sample_reset_renderInfo =
     (JNull, JStr []) \<and>
   \<not> truthy JNull \<and> \<not> truthy (JStr []) \<and>
   (''emails/activate_email'', sample_renderInfo) \<in> set (renders (composeTemporaryLinkEmail
      sample_env_render_empty sample_renderInfo sample_emailInfo observe)) \<and>
   (''emails/activate_email'', sample_renderInfo) \<in> set (renders (sendActivationEmail
      sample_env_render_empty sample_info observe)) \<and>
   (''emails/reset_email'', sample_reset_renderInfo) \<in> set (renders (sendResetEmail
      sample_env_render_empty sample_info observe)) \<and>
   calls (composeTemporaryLinkEmail sample_env_render_empty sample_renderInfo sample_emailInfo
      observe) = [[Prim JNull, Prim (JBool False)]] \<and>
   calls (sendActivationEmail sample_env_render_empty sample_info observe) =
      [[Prim JNull, Prim (JBool False)]] \<and>
   calls (sendResetEmail sample_env_render_empty sample_info observe) =
      [[Prim JNull, Prim (JBool False)]] \<and>
   creates (sendActivationEmail sample_env_render_empty sample_info observe) = [] \<and>
   sends (sendActivationEmail sample_env_render_empty sample_info observe) = []"
proof -
  have a: "render sample_env_render_empty ''emails/activate_email'' sample_renderInfo =
      (JNull, JStr [])"
    and b: "render sample_env_render_empty ''emails/reset_email'' sample_reset_renderInfo =
      (JNull, JStr [])"
    by (simp_all add: sample_defs)
  have f: "\<not> truthy JNull" "\<not> truthy (JStr [])"
    by simp_all
  have r: "(''emails/activate_email'', sample_renderInfo) \<in> set (renders
        (composeTemporaryLinkEmail sample_env_render_empty sample_renderInfo sample_emailInfo
           observe))"
      "(''emails/activate_email'', sample_renderInfo) \<in> set (renders (sendActivationEmail
        sample_env_render_empty sample_info observe))"
      "(''emails/reset_email'', sample_reset_renderInfo) \<in> set (renders (sendResetEmail
        sample_env_render_empty sample_info observe))"
    by (simp_all add: sample_render_empty_runs)
  from a b f r
    empty_render_reports_failure [OF a f, of sample_renderInfo sample_emailInfo sample_info]
    empty_render_reports_failure [OF b f, of sample_renderInfo sample_emailInfo sample_info]
  show ?thesis
    by blast
qed

section \<open>The sender of a composed email\<close>

text \<open>
  C7. In every row that \<open>composeTemporaryLinkEmail\<close> hands to the store, the \<open>from\<close> of the
  message is \<open>no-reply@nealblim.com\<close> when the caller supplies no \<open>from\<close> (the field is
  \<open>undefined\<close> or \<open>null\<close>), and the caller's \<open>from\<close> otherwise.
\<close>

theorem default_sender:
  assumes "r \<in> set (creates (composeTemporaryLinkEmail e ri ei observe))"
  shows "email_from (email_info r) =
           (if eq_null (emailInfo_from ei) then JStr ''no-reply@nealblim.com''
            else emailInfo_from ei)"
  using helper_trace [of e ri ei] assms
  by (cases rule: helper_shapes) (auto simp: adminEmailAddress_def)

theorem default_sender_witness:
  "sample_activation_row \<in> set (creates (composeTemporaryLinkEmail sample_env
      sample_renderInfo sample_emailInfo observe)) \<and>
   emailInfo_from sample_emailInfo = JUndefined \<and>
   email_from (email_info sample_activation_row) = JStr ''no-reply@nealblim.com'' \<and>
   sample_activation_row \<lparr> email_info := email_info sample_activation_row
        \<lparr> email_from := JStr ''webmaster@nealblim.com'' \<rparr> \<rparr> \<in>
     set (creates (composeTemporaryLinkEmail sample_env sample_renderInfo
       (sample_emailInfo \<lparr> emailInfo_from := JStr ''webmaster@nealblim.com'' \<rparr>) observe)) \<and>
   email_from (email_info (sample_activation_row \<lparr> email_info :=
       email_info sample_activation_row \<lparr> email_from := JStr ''webmaster@nealblim.com'' \<rparr> \<rparr>)) =
     JStr ''webmaster@nealblim.com''"
proof -
  let ?ei = "sample_emailInfo \<lparr> emailInfo_from := JStr ''webmaster@nealblim.com'' \<rparr>"
  let ?row = "sample_activation_row \<lparr> email_info := email_info sample_activation_row
        \<lparr> email_from := JStr ''webmaster@nealblim.com'' \<rparr> \<rparr>"
  have a: "sample_activation_row \<in> set (creates (composeTemporaryLinkEmail sample_env
      sample_renderInfo sample_emailInfo observe))"
    by (simp add: sample_helper_run)
  have b: "?row \<in> set (creates (composeTemporaryLinkEmail sample_env sample_renderInfo
      ?ei observe))"
    by (simp add: module_defs sample_defs)
  have c: "emailInfo_from sample_emailInfo = JUndefined"
      "emailInfo_from ?ei = JStr ''webmaster@nealblim.com''"
    by (simp_all add: sample_defs)
  from default_sender [OF a] default_sender [OF b] a b c show ?thesis
    by simp
qed

section \<open>The copies of a composed email\<close>

text \<open>
  C9, as stated: where the caller supplies no \<open>cc\<close> (no \<open>bcc\<close>), the \<open>cc\<close> (\<open>bcc\<close>) of the
  stored message is absent. It is not: for the sample request, which supplies neither,
  both fields of the row handed to the store are present and hold the boolean \<open>false\<close>,
  where an absent field would read as \<open>undefined\<close>.
\<close>

theorem cc_bcc_absent_counterexample:
  "emailInfo_cc sample_emailInfo = JUndefined \<and>
   emailInfo_bcc sample_emailInfo = JUndefined \<and>
   creates (composeTemporaryLinkEmail sample_env sample_renderInfo sample_emailInfo observe) =
     [sample_activation_row] \<and>
   email_cc (email_info sample_activation_row) = JBool False \<and>
   email_bcc (email_info sample_activation_row) = JBool False \<and>
   email_cc (email_info sample_activation_row) \<noteq> JUndefined \<and>
   email_bcc (email_info sample_activation_row) \<noteq> JUndefined"
  by (simp add: sample_helper_run) (simp add: sample_defs)

text \<open>
  C9, amended: in every row that \<open>composeTemporaryLinkEmail\<close> hands to the store, the \<open>cc\<close>
  (respectively \<open>bcc\<close>) of the message is the boolean \<open>false\<close> when the caller supplies none
  (the field is \<open>undefined\<close> or \<open>null\<close>), and the caller's value, unchanged, otherwise.
\<close>

theorem stored_cc_bcc:
  assumes "r \<in> set (creates (composeTemporaryLinkEmail e ri ei observe))"
  shows "email_cc (email_info r) =
           (if eq_null (emailInfo_cc ei) then JBool False else emailInfo_cc ei) \<and>
         email_bcc (email_info r) =
           (if eq_null (emailInfo_bcc ei) then JBool False else emailInfo_bcc ei)"
  using helper_trace [of e ri ei] assms
  by (cases rule: helper_shapes) auto

theorem stored_cc_bcc_witness:
  "sample_activation_row \<in> set (creates (composeTemporaryLinkEmail sample_env
      sample_renderInfo sample_emailInfo observe)) \<and>
   email_cc (email_info sample_activation_row) = JBool False \<and>
   email_bcc (email_info sample_activation_row) = JBool False \<and>
   sample_activation_row \<lparr> email_info := email_info sample_activation_row
        \<lparr> email_cc := JStr ''audit@nealblim.com'', email_bcc := JStr ''log@nealblim.com'' \<rparr> \<rparr> \<in>
     set (creates (composeTemporaryLinkEmail sample_env sample_renderInfo
       (sample_emailInfo \<lparr> emailInfo_cc := JStr ''audit@nealblim.com'',
          emailInfo_bcc := JStr ''log@nealblim.com'' \<rparr>) observe)) \<and>
   email_cc (email_info (sample_activation_row \<lparr> email_info := email_info sample_activation_row
        \<lparr> email_cc := JStr ''audit@nealblim.com'', email_bcc := JStr ''log@nealblim.com'' \<rparr> \<rparr>)) =
     JStr ''audit@nealblim.com'' \<and>
   email_bcc (email_info (sample_activation_row \<lparr> email_info := email_info sample_activation_row
        \<lparr> email_cc := JStr ''audit@nealblim.com'', email_bcc := JStr ''log@nealblim.com'' \<rparr> \<rparr>)) =
     JStr ''log@nealblim.com''"
proof -
  let ?ei = "sample_emailInfo \<lparr> emailInfo_cc := JStr ''audit@nealblim.com'',
          emailInfo_bcc := JStr ''log@nealblim.com'' \<rparr>"
  let ?row = "sample_activation_row \<lparr> email_info := email_info sample_activation_row
        \<lparr> email_cc := JStr ''audit@nealblim.com'', email_bcc := JStr ''log@nealblim.com'' \<rparr> \<rparr>"
  have a: "sample_activation_row \<in> set (creates (composeTemporaryLinkEmail sample_env
      sample_renderInfo sample_emailInfo observe))"
    by (simp add: sample_helper_run)
  have b: "?row \<in> set (creates (composeTemporaryLinkEmail sample_env sample_renderInfo
      ?ei observe))"
    by (simp add: module_defs sample_defs)
  have c: "emailInfo_cc sample_emailInfo = JUndefined"
      "emailInfo_bcc sample_emailInfo = JUndefined"
      "emailInfo_cc ?ei = JStr ''audit@nealblim.com''"
      "emailInfo_bcc ?ei = JStr ''log@nealblim.com''"
    by (simp_all add: sample_defs)
  from stored_cc_bcc [OF a] stored_cc_bcc [OF b] a b c show ?thesis
    by simp
qed

section \<open>A failure of the persistence\<close>

text \<open>
  When the store rejects the row, no email is sent. The helper calls its own callback with
  \<open>(null, false, {message: x})\<close>, where \<open>x\<close> is the store's error; the callbacks that the
  two exported functions give to the helper read two parameters only, so the caller of an
  exported function receives \<open>(null, false)\<close>.
\<close>

lemma store_rejection_reports:
  assumes "create e r = CreateRejected x"
  shows
    "(r \<in> set (creates (composeTemporaryLinkEmail e ri0 ei observe)) \<longrightarrow>
        calls (composeTemporaryLinkEmail e ri0 ei observe) =
          [[Prim JNull, Prim (JBool False), Info x]] \<and>
        sends (composeTemporaryLinkEmail e ri0 ei observe) = [])"
    "(r \<in> set (creates (sendActivationEmail e info observe)) \<longrightarrow>
        calls (sendActivationEmail e info observe) = [[Prim JNull, Prim (JBool False)]] \<and>
        sends (sendActivationEmail e info observe) = [])"
    "(r \<in> set (creates (sendResetEmail e info observe)) \<longrightarrow>
        calls (sendResetEmail e info observe) = [[Prim JNull, Prim (JBool False)]] \<and>
        sends (sendResetEmail e info observe) = [])"
proof -
  show "(r \<in> set (creates (composeTemporaryLinkEmail e ri0 ei observe)) \<longrightarrow>
        calls (composeTemporaryLinkEmail e ri0 ei observe) =
          [[Prim JNull, Prim (JBool False), Info x]] \<and>
        sends (composeTemporaryLinkEmail e ri0 ei observe) = [])"
  proof
    assume h: "r \<in> set (creates (composeTemporaryLinkEmail e ri0 ei observe))"
    from helper_trace [of e ri0 ei] h assms
    show "calls (composeTemporaryLinkEmail e ri0 ei observe) =
          [[Prim JNull, Prim (JBool False), Info x]] \<and>
        sends (composeTemporaryLinkEmail e ri0 ei observe) = []"
      by (cases rule: helper_shapes) auto
  qed
  show "(r \<in> set (creates (sendActivationEmail e info observe)) \<longrightarrow>
        calls (sendActivationEmail e info observe) = [[Prim JNull, Prim (JBool False)]] \<and>
        sends (sendActivationEmail e info observe) = [])"
  proof
    assume h: "r \<in> set (creates (sendActivationEmail e info observe))"
    obtain ri1 ei1 where t: "sendActivationEmail e info observe =
        [] @ composeTemporaryLinkEmail e ri1 ei1 (sendActivationEmail_callback observe)"
      by (rule activation_trace)
    from t h assms
    show "calls (sendActivationEmail e info observe) = [[Prim JNull, Prim (JBool False)]] \<and>
        sends (sendActivationEmail e info observe) = []"
      by (cases rule: activation_shapes) auto
  qed
  show "(r \<in> set (creates (sendResetEmail e info observe)) \<longrightarrow>
        calls (sendResetEmail e info observe) = [[Prim JNull, Prim (JBool False)]] \<and>
        sends (sendResetEmail e info observe) = [])"
  proof
    assume h: "r \<in> set (creates (sendResetEmail e info observe))"
    show "calls (sendResetEmail e info observe) = [[Prim JNull, Prim (JBool False)]] \<and>
        sends (sendResetEmail e info observe) = []"
    proof (cases rule: reset_trace [of e info])
      case (compose user ri1 ei1)
      from compose(3) h assms show ?thesis
        by (cases rule: reset_shapes) auto
    qed (use h in auto)
  qed
qed

text \<open>
  C5. When the persistence fails, the caller's callback should report a failure carrying
  the store's error message, and no delivery should be attempted. On the sample request,
  with a store that rejects with \<open>SequelizeConnectionError\<close>, no delivery is attempted and the
  helper passes the message to its callback, but the callers of \<open>sendActivationEmail\<close> and
  of \<open>sendResetEmail\<close> receive \<open>(null, false)\<close> without it.
\<close>

theorem store_error_message_run:
  "create sample_env_store_rejects sample_activation_row =
     CreateRejected (JObj ''SequelizeConnectionError'') \<and>
   create sample_env_store_rejects sample_reset_row =
     CreateRejected (JObj ''SequelizeConnectionError'') \<and>
   composeTemporaryLinkEmail sample_env_store_rejects sample_renderInfo sample_emailInfo observe =
     [Render ''emails/activate_email'' sample_renderInfo, Create sample_activation_row,
      Done [Prim JNull, Prim (JBool False), Info (JObj ''SequelizeConnectionError'')]] \<and>
   sendActivationEmail sample_env_store_rejects sample_info observe =
     [Render ''emails/activate_email'' sample_renderInfo, Create sample_activation_row,
      Done [Prim JNull, Prim (JBool False)]] \<and>
   sendResetEmail sample_env_store_rejects sample_info observe =
     [FindOne (JStr ''a@x.com''), Render ''emails/reset_email'' sample_reset_renderInfo,
      Create sample_reset_row, Done [Prim JNull, Prim (JBool False)]]"
  by (simp add: module_defs sample_defs)

section \<open>A store that resolves to nothing\<close>

text \<open>
  C10. When the store resolves the request for the row of an invocation to a falsy value,
  the invocation never calls the caller's callback, neither with a success nor with a
  failure, and sends no email. This holds of the helper and of both exported functions.
\<close>

theorem falsy_row_never_calls_back:
  assumes "create e r = CreateResolved None"
  shows
    "(r \<in> set (creates (composeTemporaryLinkEmail e ri0 ei observe)) \<longrightarrow>
        calls (composeTemporaryLinkEmail e ri0 ei observe) = [] \<and>
        sends (composeTemporaryLinkEmail e ri0 ei observe) = []) \<and>
     (r \<in> set (creates (sendActivationEmail e info observe)) \<longrightarrow>
        calls (sendActivationEmail e info observe) = [] \<and>
        sends (sendActivationEmail e info observe) = []) \<and>
     (r \<in> set (creates (sendResetEmail e info observe)) \<longrightarrow>
        calls (sendResetEmail e info observe) = [] \<and>
        sends (sendResetEmail e info observe) = [])"
proof -
  have helper:
    "(r \<in> set (creates (composeTemporaryLinkEmail e ri0 ei observe)) \<longrightarrow>
       calls (composeTemporaryLinkEmail e ri0 ei observe) = [] \<and>
       sends (composeTemporaryLinkEmail e ri0 ei observe) = [])"
  proof
    assume h: "r \<in> set (creates (composeTemporaryLinkEmail e ri0 ei observe))"
    from helper_trace [of e ri0 ei] h assms
    show "calls (composeTemporaryLinkEmail e ri0 ei observe) = [] \<and>
      sends (composeTemporaryLinkEmail e ri0 ei observe) = []"
      by (cases rule: helper_shapes) auto
  qed
  have activation:
    "(r \<in> set (creates (sendActivationEmail e info observe)) \<longrightarrow>
       calls (sendActivationEmail e info observe) = [] \<and>
       sends (sendActivationEmail e info observe) = [])"
  proof
    assume h: "r \<in> set (creates (sendActivationEmail e info observe))"
    obtain ri1 ei1 where t: "sendActivationEmail e info observe =
        [] @ composeTemporaryLinkEmail e ri1 ei1 (sendActivationEmail_callback observe)"
      by (rule activation_trace)
    from t h assms
    show "calls (sendActivationEmail e info observe) = [] \<and>
      sends (sendActivationEmail e info observe) = []"
      by (cases rule: activation_shapes) auto
  qed
  have reset:
    "(r \<in> set (creates (sendResetEmail e info observe)) \<longrightarrow>
       calls (sendResetEmail e info observe) = [] \<and>
       sends (sendResetEmail e info observe) = [])"
  proof
    assume h: "r \<in> set (creates (sendResetEmail e info observe))"
    show "calls (sendResetEmail e info observe) = [] \<and>
      sends (sendResetEmail e info observe) = []"
    proof (cases rule: reset_trace [of e info])
      case (compose user ri1 ei1)
      from compose(3) h assms show ?thesis
        by (cases rule: reset_shapes) auto
    qed (use h in auto)
  qed
  from helper activation reset show ?thesis
    by (intro conjI)
qed

lemma sample_store_falsy_runs:
  "composeTemporaryLinkEmail sample_env_store_falsy sample_renderInfo sample_emailInfo observe =
     [Render ''emails/activate_email'' sample_renderInfo, Create sample_activation_row]"
  "sendActivationEmail sample_env_store_falsy sample_info observe =
     [Render ''emails/activate_email'' sample_renderInfo, Create sample_activation_row]"
  "sendResetEmail sample_env_store_falsy sample_info observe =
     [FindOne (JStr ''a@x.com''), Render ''emails/reset_email'' sample_reset_renderInfo,
      Create sample_reset_row]"
  by (simp_all add: module_defs sample_defs)

theorem falsy_row_never_calls_back_witness:
  "create sample_env_store_falsy sample_activation_row = CreateResolved None \<and>
   create sample_env_store_falsy sample_reset_row = CreateResolved None \<and>
   sample_activation_row \<in> set (creates (composeTemporaryLinkEmail sample_env_store_falsy
      sample_renderInfo sample_emailInfo observe)) \<and>
   sample_activation_row \<in> set (creates (sendActivationEmail sample_env_store_falsy
      sample_info observe)) \<and>
   sample_reset_row \<in> set (creates (sendResetEmail sample_env_store_falsy
      sample_info observe)) \<and>
   calls (composeTemporaryLinkEmail sample_env_store_falsy sample_renderInfo sample_emailInfo
      observe) = [] \<and>
   calls (sendActivationEmail sample_env_store_falsy sample_info observe) = [] \<and>
   calls (sendResetEmail sample_env_store_falsy sample_info observe) = []"
proof -
  have a: "create sample_env_store_falsy sample_activation_row = CreateResolved None"
    and b: "create sample_env_store_falsy sample_reset_row = CreateResolved None"
    by (simp_all add: sample_defs)
  have r: "sample_activation_row \<in> set (creates (composeTemporaryLinkEmail
        sample_env_store_falsy sample_renderInfo sample_emailInfo observe))"
      "sample_activation_row \<in> set (creates (sendActivationEmail sample_env_store_falsy
        sample_info observe))"
      "sample_reset_row \<in> set (creates (sendResetEmail sample_env_store_falsy
        sample_info observe))"
    by (simp_all add: sample_store_falsy_runs)
  from a b r
    falsy_row_never_calls_back [OF a, of sample_renderInfo sample_emailInfo sample_info]
    falsy_row_never_calls_back [OF b, of sample_renderInfo sample_emailInfo sample_info]
  show ?thesis
    by blast
qed

section \<open>A reset request for an account that was never activated\<close>

text \<open>
  C6. When the user that a reset request matches is not active and has never logged in,
  \<open>sendResetEmail\<close> calls the callback with \<open>(null, false)\<close> and the message
  "You must activate your account first.", and does nothing else after the lookup: no
  render, no row handed to the store, no call of the transport.
\<close>

theorem reset_requires_activation:
  assumes "findOne e (recipientAddress info) = FindResolved (Some user)"
    and "\<not> truthy (user_active user)" and "\<not> truthy (last_login user)"
  shows "sendResetEmail e info observe =
           [FindOne (recipientAddress info),
            Done [Prim JNull, Prim (JBool False),
                  Info (JStr ''You must activate your account first.'')]] \<and>
         renders (sendResetEmail e info observe) = [] \<and>
         creates (sendResetEmail e info observe) = [] \<and>
         sends (sendResetEmail e info observe) = []"
  using assms by (simp add: sendResetEmail_def observe_def)

theorem reset_requires_activation_witness:
  "findOne sample_env_inactive_user (recipientAddress sample_info) =
     FindResolved (Some (sample_user \<lparr> user_active := JBool False \<rparr>)) \<and>
   \<not> truthy (user_active (sample_user \<lparr> user_active := JBool False \<rparr>)) \<and>
   \<not> truthy (last_login (sample_user \<lparr> user_active := JBool False \<rparr>)) \<and>
   sendResetEmail sample_env_inactive_user sample_info observe =
     [FindOne (JStr ''a@x.com''),
      Done [Prim JNull, Prim (JBool False),
            Info (JStr ''You must activate your account first.'')]]"
proof -
  have a: "findOne sample_env_inactive_user (recipientAddress sample_info) =
      FindResolved (Some (sample_user \<lparr> user_active := JBool False \<rparr>))"
    by (simp add: sample_defs)
  have b: "\<not> truthy (user_active (sample_user \<lparr> user_active := JBool False \<rparr>))"
    and c: "\<not> truthy (last_login (sample_user \<lparr> user_active := JBool False \<rparr>))"
    by (simp_all add: sample_defs)
  have k: "recipientAddress sample_info = JStr ''a@x.com''"
    by (simp add: sample_defs)
  from a b c reset_requires_activation [OF a b c] show ?thesis
    unfolding k by blast
qed

section \<open>A reset request for an unknown address\<close>

text \<open>
  Whenever the lookup finds no user, \<open>sendResetEmail\<close> ends in the \<open>ReferenceError\<close>, for
  every callback \<open>done\<close>: the callback is never called.
\<close>

lemma reset_not_found_never_calls_back:
  assumes "findOne e (recipientAddress info) = FindResolved None"
  shows "sendResetEmail e info done =
           [FindOne (recipientAddress info), Unhandled (ReferenceError ''err is not defined'')]"
  using assms by (simp add: sendResetEmail_def)

text \<open>
  C4. A reset request whose address matches no user should render, persist and send
  nothing and report an "invalid account" failure with a message to the callback. On the
  sample request, with a store of users that finds none, the code does render, persist and
  send nothing, but it never calls the callback: evaluating the arguments of the intended
  call throws.
\<close>

theorem reset_unknown_address_run:
  "findOne sample_env_no_user (recipientAddress sample_info) = FindResolved None \<and>
   sendResetEmail sample_env_no_user sample_info observe =
     [FindOne (JStr ''a@x.com''), Unhandled (ReferenceError ''err is not defined'')] \<and>
   calls (sendResetEmail sample_env_no_user sample_info observe) = []"
  by (simp add: sendResetEmail_def sample_defs)

end
